theory Spec2Isabelle
  imports Complex_Main "HOL-Library.AList" "HOL-Library.Sublist"
begin

section \<open>Values of the record files\<close>

text \<open>
  The three scripts under \<^verbatim>\<open>evaluation/gaia\<close> work on what \<^verbatim>\<open>json.loads\<close> returns:
  \<^verbatim>\<open>None\<close>, booleans, integers, floats, strings, lists and dicts with string keys.
  A dict is an association list in insertion order; a lookup reads the first binding
  of a key. Python's unbounded integers are \<open>int\<close>. A float is represented by the
  real number it denotes: arithmetic on floats is exact in this model (no rounding,
  no overflow, no NaN or infinity, which standard JSON does not have either).
  Strings are byte strings (UTF-8).
\<close>

datatype json =
    JNull
  | JBool bool
  | JInt int
  | JFloat real
  | JStr string
  | JArr "json list"
  | JObj "(string \<times> json) list"

text \<open>
  Exceptions are values. \<open>JSONDecodeError\<close> carries the line and column that
  \<^verbatim>\<open>json.loads\<close> reports, which are positions inside the string it was given.
  \<open>SystemExit\<close> is \<^verbatim>\<open>sys.exit\<close>. \<open>NotModelled\<close> marks the one builtin behaviour this
  development does not embed: \<^verbatim>\<open>int(s)\<close> for a string \<open>s\<close>.
\<close>

datatype error =
    AttributeError
  | TypeError
  | ValueError
  | KeyError
  | IndexError
  | ZeroDivisionError
  | JSONDecodeError nat nat
  | SystemExit nat
  | NotModelled

fun bindE :: "error + 'a \<Rightarrow> ('a \<Rightarrow> error + 'b) \<Rightarrow> error + 'b" where
  "bindE (Inl e) f = Inl e"
| "bindE (Inr x) f = f x"

subsection \<open>Builtins\<close>

text \<open>\<^verbatim>\<open>bool(v)\<close>: the truth value Python gives a value in \<^verbatim>\<open>if v\<close> and \<^verbatim>\<open>not v\<close>.\<close>

fun py_truthy :: "json \<Rightarrow> bool" where
  "py_truthy JNull = False"
| "py_truthy (JBool b) = b"
| "py_truthy (JInt i) = (i \<noteq> 0)"
| "py_truthy (JFloat x) = (x \<noteq> 0)"
| "py_truthy (JStr s) = (s \<noteq> [])"
| "py_truthy (JArr xs) = (xs \<noteq> [])"
| "py_truthy (JObj kvs) = (kvs \<noteq> [])"

text \<open>\<^verbatim>\<open>d.get(k, default)\<close>: only a dict has the method.\<close>

fun py_get :: "json \<Rightarrow> string \<Rightarrow> json \<Rightarrow> error + json" where
  "py_get (JObj kvs) k d = Inr (case map_of kvs k of None \<Rightarrow> d | Some v \<Rightarrow> v)"
| "py_get _ k d = Inl AttributeError"

text \<open>\<^verbatim>\<open>d[k]\<close> with a string key: \<^verbatim>\<open>KeyError\<close> on a dict without the key, \<^verbatim>\<open>TypeError\<close> on
  every other value (a list or a string wants an integer index, the rest cannot be
  subscripted).\<close>

fun py_index :: "json \<Rightarrow> string \<Rightarrow> error + json" where
  "py_index (JObj kvs) k = (case map_of kvs k of None \<Rightarrow> Inl KeyError | Some v \<Rightarrow> Inr v)"
| "py_index _ k = Inl TypeError"

text \<open>\<^verbatim>\<open>for x in v\<close>: a list yields its elements, a dict its keys, a string its
  characters; nothing else can be iterated.\<close>

fun py_iter :: "json \<Rightarrow> error + json list" where
  "py_iter (JArr xs) = Inr xs"
| "py_iter (JObj kvs) = Inr (map (\<lambda>kv. JStr (fst kv)) kvs)"
| "py_iter (JStr s) = Inr (map (\<lambda>c. JStr [c]) s)"
| "py_iter _ = Inl TypeError"

text \<open>\<^verbatim>\<open>int(x)\<close> of a float truncates towards zero.\<close>

definition trunc :: "real \<Rightarrow> int" where
  "trunc x = (if 0 \<le> x then \<lfloor>x\<rfloor> else \<lceil>x\<rceil>)"

fun py_int :: "json \<Rightarrow> error + json" where
  "py_int (JInt i) = Inr (JInt i)"
| "py_int (JBool b) = Inr (JInt (if b then 1 else 0))"
| "py_int (JFloat x) = Inr (JInt (trunc x))"
| "py_int (JStr s) = Inl NotModelled"
| "py_int _ = Inl TypeError"

text \<open>\<^verbatim>\<open>v * m\<close> for an integer \<open>m\<close>: a number is multiplied (a boolean counts as 0 or
  1), a string or a list is repeated, \<^verbatim>\<open>None\<close> and a dict raise.\<close>

fun py_mul :: "json \<Rightarrow> int \<Rightarrow> error + json" where
  "py_mul (JInt i) m = Inr (JInt (i * m))"
| "py_mul (JBool b) m = Inr (JInt ((if b then 1 else 0) * m))"
| "py_mul (JFloat x) m = Inr (JFloat (x * real_of_int m))"
| "py_mul (JStr s) m = Inr (JStr (concat (replicate (nat m) s)))"
| "py_mul (JArr xs) m = Inr (JArr (concat (replicate (nat m) xs)))"
| "py_mul _ m = Inl TypeError"

text \<open>\<^verbatim>\<open>acc + v\<close> where \<open>acc\<close> is a float accumulator: only a number can be added.\<close>

fun facc_add :: "real \<Rightarrow> json \<Rightarrow> error + real" where
  "facc_add a (JInt i) = Inr (a + real_of_int i)"
| "facc_add a (JBool b) = Inr (a + (if b then 1 else 0))"
| "facc_add a (JFloat x) = Inr (a + x)"
| "facc_add a _ = Inl TypeError"

text \<open>\<^verbatim>\<open>acc + v\<close> where \<open>acc\<close> is an accumulator that starts as the integer 0, so it
  is an integer or a float: the sum of integers (and booleans) is an integer, a float
  on either side makes it a float.\<close>

fun acc_add :: "json \<Rightarrow> json \<Rightarrow> error + json" where
  "acc_add (JInt a) (JInt i) = Inr (JInt (a + i))"
| "acc_add (JInt a) (JBool b) = Inr (JInt (a + (if b then 1 else 0)))"
| "acc_add (JInt a) (JFloat x) = Inr (JFloat (real_of_int a + x))"
| "acc_add (JFloat a) v = (case facc_add a v of Inl e \<Rightarrow> Inl e | Inr r \<Rightarrow> Inr (JFloat r))"
| "acc_add _ _ = Inl TypeError"

text \<open>The value of a number as a float, as a division or a comparison of numbers
  reads it. Only numbers reach it.\<close>

fun num_value :: "json \<Rightarrow> real" where
  "num_value (JInt i) = real_of_int i"
| "num_value (JFloat x) = x"
| "num_value (JBool b) = (if b then 1 else 0)"
| "num_value _ = 0"

text \<open>The format specification \<^verbatim>\<open>.4f\<close> accepts a number; on a string it raises
  \<^verbatim>\<open>ValueError\<close>, on any other value \<^verbatim>\<open>TypeError\<close>. The digits printed are not modelled:
  a formatted quantity is kept as the value it was printed from.\<close>

fun py_format_f :: "json \<Rightarrow> error + json" where
  "py_format_f (JInt i) = Inr (JInt i)"
| "py_format_f (JBool b) = Inr (JBool b)"
| "py_format_f (JFloat x) = Inr (JFloat x)"
| "py_format_f (JStr s) = Inl ValueError"
| "py_format_f _ = Inl TypeError"

subsection \<open>Strings\<close>

text \<open>\<^verbatim>\<open>s.lower()\<close> on the ASCII letters. The phrases searched below are ASCII, and no
  character outside ASCII lowers to one of their letters followed by their next
  letter, so on UTF-8 bytes the searches find what Python finds.\<close>

definition lower_char :: "char \<Rightarrow> char" where
  "lower_char c =
     (case map_of (zip ''ABCDEFGHIJKLMNOPQRSTUVWXYZ'' ''abcdefghijklmnopqrstuvwxyz'') c of
        Some d \<Rightarrow> d
      | None \<Rightarrow> c)"

definition lower :: "string \<Rightarrow> string" where
  "lower s = map lower_char s"

text \<open>\<^verbatim>\<open>p in s\<close>: \<open>p\<close> occurs in \<open>s\<close> as a contiguous substring.\<close>

fun contains :: "string \<Rightarrow> string \<Rightarrow> bool" where
  "contains p [] = (p = [])"
| "contains p (c # cs) = (prefix p (c # cs) \<or> contains p cs)"

text \<open>\<^verbatim>\<open>d[k] = v\<close>: an existing key keeps its place, a new key goes to the end; only
  a dict accepts a string key.\<close>

fun py_setitem :: "json \<Rightarrow> string \<Rightarrow> json \<Rightarrow> error + json" where
  "py_setitem (JObj kvs) k v = Inr (JObj (AList.update k v kvs))"
| "py_setitem _ k v = Inl TypeError"

section \<open>fix\_cost.py\<close>

subsection \<open>detect\_retry\_pattern\<close>

text \<open>
  The loop state is \<open>(retry_count, case_not_resolved_count, has_meta_agent)\<close>. One
  iteration reads \<^verbatim>\<open>msg.get('content', '')\<close> and, when that is a string, runs the three
  tests in the order of the source.
\<close>

type_synonym signals = "int \<times> int \<times> bool"

definition detect_step :: "signals \<Rightarrow> json \<Rightarrow> error + signals" where
  "detect_step st msg =
     (case st of (retry_count, case_not_resolved_count, has_meta_agent) \<Rightarrow>
      bindE (py_get msg ''content'' (JStr [])) (\<lambda>content.
        case content of
          JStr s \<Rightarrow>
            Inr (if contains ''try to resolve the case again'' (lower s)
                   then retry_count + 1 else retry_count,
                 if contains ''Case not resolved'' s
                   then case_not_resolved_count + 1 else case_not_resolved_count,
                 if contains ''existing agent system'' (lower s) \<and> contains ''MetaChain'' s
                   then True else has_meta_agent)
        | _ \<Rightarrow> Inr (retry_count, case_not_resolved_count, has_meta_agent)))"

fun detect_loop :: "signals \<Rightarrow> json list \<Rightarrow> error + signals" where
  "detect_loop st [] = Inr st"
| "detect_loop st (msg # msgs) = bindE (detect_step st msg) (\<lambda>st'. detect_loop st' msgs)"

definition detect_retry_pattern :: "json \<Rightarrow> error + signals" where
  "detect_retry_pattern messages = bindE (py_iter messages) (detect_loop (0, 0, False))"

subsection \<open>fix\_instance\_cost\<close>

text \<open>
  The third component of the result is the modification reason. The two fixed
  reasons are the source's strings; the f-string of the modified case is kept as
  the four quantities it interpolates: multiplier, retry count, the cost before and
  the cost after (both printed with \<^verbatim>\<open>.4f\<close>).
\<close>

datatype reason = Text string | Multiplied int int json json

text \<open>\<^verbatim>\<open>int(usage_stats.get(key, 0) * multiplier)\<close>\<close>

definition scaled_int :: "json \<Rightarrow> string \<Rightarrow> int \<Rightarrow> error + json" where
  "scaled_int usage_stats key multiplier =
     bindE (py_get usage_stats key (JInt 0)) (\<lambda>v.
     bindE (py_mul v multiplier) py_int)"

definition fixed_stats :: "json \<Rightarrow> int \<Rightarrow> int \<Rightarrow> json \<Rightarrow> error + json" where
  "fixed_stats usage_stats retry_count multiplier original_cost =
     bindE (scaled_int usage_stats ''total_prompt_tokens'' multiplier) (\<lambda>prompt.
     bindE (scaled_int usage_stats ''total_completion_tokens'' multiplier) (\<lambda>completion.
     bindE (scaled_int usage_stats ''total_tokens'' multiplier) (\<lambda>tokens.
     bindE (py_mul original_cost multiplier) (\<lambda>cost.
     bindE (py_get usage_stats ''api_calls'' (JInt 0)) (\<lambda>calls0.
     bindE (py_mul calls0 multiplier) (\<lambda>calls.
     bindE (py_get usage_stats ''api_calls'' (JInt 0)) (\<lambda>original_calls.
       Inr (JObj
         [(''total_prompt_tokens'', prompt),
          (''total_completion_tokens'', completion),
          (''total_tokens'', tokens),
          (''total_cost'', cost),
          (''api_calls'', calls),
          (''_original_cost'', original_cost),
          (''_original_api_calls'', original_calls),
          (''_retry_count'', JInt retry_count),
          (''_multiplier'', JInt multiplier)]))))))))"

definition fix_instance_cost :: "json \<Rightarrow> error + (json \<times> bool \<times> reason)" where
  "fix_instance_cost instance =
     bindE (py_get instance ''messages'' (JArr [])) (\<lambda>messages.
     bindE (py_get instance ''test_result'' (JObj [])) (\<lambda>test_result.
     bindE (py_get test_result ''usage_stats'' (JObj [])) (\<lambda>usage_stats.
       if \<not> py_truthy usage_stats
       then Inr (instance, False, Text ''No usage_stats found'')
       else
     bindE (detect_retry_pattern messages) (\<lambda>sig.
       case sig of (retry_count, case_not_resolved_count, has_meta_agent) \<Rightarrow>
       if retry_count = 0
       then Inr (instance, False, Text ''No retries detected'')
       else
       let multiplier = retry_count + 1 in
     bindE (py_get usage_stats ''total_cost'' (JInt 0)) (\<lambda>original_cost.
     bindE (fixed_stats usage_stats retry_count multiplier original_cost) (\<lambda>fixed_usage_stats.
     bindE (py_setitem test_result ''usage_stats'' fixed_usage_stats) (\<lambda>fixed_test_result.
     bindE (py_setitem instance ''test_result'' fixed_test_result) (\<lambda>fixed_instance.
     bindE (py_format_f original_cost) (\<lambda>shown_before.
     bindE (py_mul original_cost multiplier) (\<lambda>cost_after.
     bindE (py_format_f cost_after) (\<lambda>shown_after.
       Inr (fixed_instance, True,
            Multiplied multiplier retry_count shown_before shown_after))))))))))))"

subsection \<open>fix\_output\_file\<close>

text \<open>\<^verbatim>\<open>not line.strip()\<close>: the line has only whitespace (the ASCII characters that
  \<^verbatim>\<open>str.isspace\<close> accepts).\<close>

definition is_space :: "char \<Rightarrow> bool" where
  "is_space c = (c \<in> set [CHR 0x20, CHR 0x09, CHR 0x0A, CHR 0x0B, CHR 0x0C, CHR 0x0D,
                           CHR 0x1C, CHR 0x1D, CHR 0x1E, CHR 0x1F])"

definition blank :: "string \<Rightarrow> bool" where
  "blank line = list_all is_space line"

text \<open>\<^verbatim>\<open>s.replace(old, new)\<close>: every occurrence of \<open>old\<close>, left to right, without
  overlaps; an empty \<open>old\<close> matches before every character and at the end.\<close>

function replace :: "string \<Rightarrow> string \<Rightarrow> string \<Rightarrow> string" where
  "replace old new [] = (if old = [] then new else [])"
| "replace old new (c # cs) =
     (if old = [] then new @ c # replace old new cs
      else if prefix old (c # cs) then new @ replace old new (drop (length old) (c # cs))
      else c # replace old new cs)"
  by pat_completeness auto
termination
  by (relation "measure (\<lambda>(old, new, s). length s)") auto

text \<open>\<^verbatim>\<open>instance.get('test_result', {}).get('usage_stats', {}).get('total_cost', 0)\<close>\<close>

definition cost_of :: "json \<Rightarrow> error + json" where
  "cost_of instance =
     bindE (py_get instance ''test_result'' (JObj [])) (\<lambda>test_result.
     bindE (py_get test_result ''usage_stats'' (JObj [])) (\<lambda>usage_stats.
       py_get usage_stats ''total_cost'' (JInt 0)))"

record modification =
  mod_instance_id :: json
  mod_reason :: reason
  mod_original_cost :: json
  mod_fixed_cost :: json

record summary =
  total_instances :: int
  modified_instances :: int
  original_total_cost :: real
  fixed_total_cost :: real
  modifications :: "modification list"

text \<open>
  \<^verbatim>\<open>json.loads\<close> is a parameter \<open>loads\<close> of every function that reads a file: it maps
  a line to the decoded value or to the exception it raises. The file is the list of
  its lines, each with its line terminator, as iterating over the open file yields
  them. The loop state is the summary and \<^verbatim>\<open>fixed_lines\<close>; a line of the output is
  kept as the value that \<^verbatim>\<open>json.dumps\<close> serialises.
\<close>

type_synonym decoder = "string \<Rightarrow> error + json"

definition fix_line :: "decoder \<Rightarrow> summary \<times> json list \<Rightarrow> string \<Rightarrow> error + summary \<times> json list" where
  "fix_line loads st line =
     (case st of (summary, fixed_lines) \<Rightarrow>
      if blank line then Inr (summary, fixed_lines)
      else
     bindE (loads line) (\<lambda>instance.
       let summary = summary\<lparr>total_instances := total_instances summary + 1\<rparr> in
     bindE (cost_of instance) (\<lambda>original_cost.
     bindE (facc_add (original_total_cost summary) original_cost) (\<lambda>t.
       let summary = summary\<lparr>original_total_cost := t\<rparr> in
     bindE (fix_instance_cost instance) (\<lambda>res.
       case res of (fixed_instance, was_modified, reason) \<Rightarrow>
     bindE (cost_of fixed_instance) (\<lambda>fixed_cost.
     bindE (facc_add (fixed_total_cost summary) fixed_cost) (\<lambda>t.
       let summary = summary\<lparr>fixed_total_cost := t\<rparr> in
     bindE (if was_modified
            then bindE (py_get instance ''instance_id'' JNull) (\<lambda>iid.
                   Inr (summary\<lparr>modified_instances := modified_instances summary + 1,
                          modifications := modifications summary @
                            [\<lparr>mod_instance_id = iid, mod_reason = reason,
                              mod_original_cost = original_cost,
                              mod_fixed_cost = fixed_cost\<rparr>]\<rparr>))
            else Inr summary) (\<lambda>summary.
       Inr (summary, fixed_lines @ [fixed_instance])))))))))"

fun fix_lines :: "decoder \<Rightarrow> summary \<times> json list \<Rightarrow> string list \<Rightarrow> error + summary \<times> json list" where
  "fix_lines loads st [] = Inr st"
| "fix_lines loads st (line # lines) =
     bindE (fix_line loads st line) (\<lambda>st'. fix_lines loads st' lines)"

text \<open>The result of \<open>fix_output_file\<close> is the returned summary together with its one
  effect: the path opened for writing and the lines written to it. Nothing is written
  when the loop raises, since the file is opened after the loop.\<close>

record fix_result =
  written_path :: string
  written_lines :: "json list"
  returned :: summary

definition fix_output_file :: "decoder \<Rightarrow> string list \<Rightarrow> string \<Rightarrow> string option \<Rightarrow> error + fix_result" where
  "fix_output_file loads input_lines input_path output_path =
     (let output_path =
            (case output_path of
               None \<Rightarrow> replace ''.jsonl'' ''_fixed.jsonl'' input_path
             | Some p \<Rightarrow> p);
          summary = \<lparr>total_instances = 0, modified_instances = 0,
                      original_total_cost = 0, fixed_total_cost = 0, modifications = []\<rparr>
      in bindE (fix_lines loads (summary, []) input_lines) (\<lambda>st.
           case st of (summary, fixed_lines) \<Rightarrow>
             Inr \<lparr>written_path = output_path, written_lines = fixed_lines,
                  returned = summary\<rparr>))"

subsection \<open>main\<close>

text \<open>The parsed command line, and the file system as a map from a path to the lines
  of the file there. The printed summary is not modelled.\<close>

record fix_args =
  input_file :: string
  output_opt :: "string option"
  dry_run :: bool

definition fix_main :: "decoder \<Rightarrow> (string \<rightharpoonup> string list) \<Rightarrow> fix_args \<Rightarrow> error + fix_result" where
  "fix_main loads files args =
     (case files (input_file args) of
        None \<Rightarrow> Inl (SystemExit 1)
      | Some input_lines \<Rightarrow>
          let output_path = (if dry_run args then Some ''/dev/null'' else output_opt args)
          in fix_output_file loads input_lines (input_file args) output_path)"

section \<open>analyze\_cost.py\<close>

record totals =
  total_prompt_tokens :: json
  total_completion_tokens :: json
  total_tokens :: json
  total_cost :: real
  total_api_calls :: json
  num_instances :: int

record instance_cost =
  ic_instance_id :: json
  ic_cost :: json
  ic_tokens :: json
  ic_api_calls :: json
  ic_score :: json

text \<open>One iteration of the reading loop; the state is \<^verbatim>\<open>total_stats\<close> and
  \<^verbatim>\<open>instance_costs\<close>.\<close>

definition analyze_line ::
  "decoder \<Rightarrow> totals \<times> instance_cost list \<Rightarrow> string \<Rightarrow> error + totals \<times> instance_cost list" where
  "analyze_line loads st line =
     (case st of (total_stats, instance_costs) \<Rightarrow>
      if blank line then Inr (total_stats, instance_costs)
      else
     bindE (loads line) (\<lambda>data.
       let total_stats = total_stats\<lparr>num_instances := num_instances total_stats + 1\<rparr> in
     bindE (py_get data ''test_result'' (JObj [])) (\<lambda>test_result.
     bindE (py_get test_result ''usage_stats'' (JObj [])) (\<lambda>usage_stats.
       if py_truthy usage_stats then
     bindE (py_get usage_stats ''total_prompt_tokens'' (JInt 0)) (\<lambda>v1.
     bindE (acc_add (total_prompt_tokens total_stats) v1) (\<lambda>a1.
     bindE (py_get usage_stats ''total_completion_tokens'' (JInt 0)) (\<lambda>v2.
     bindE (acc_add (total_completion_tokens total_stats) v2) (\<lambda>a2.
     bindE (py_get usage_stats ''total_tokens'' (JInt 0)) (\<lambda>v3.
     bindE (acc_add (total_tokens total_stats) v3) (\<lambda>a3.
     bindE (py_get usage_stats ''total_cost'' (JFloat 0)) (\<lambda>v4.
     bindE (facc_add (total_cost total_stats) v4) (\<lambda>a4.
     bindE (py_get usage_stats ''api_calls'' (JInt 0)) (\<lambda>v5.
     bindE (acc_add (total_api_calls total_stats) v5) (\<lambda>a5.
     bindE (py_get data ''instance_id'' JNull) (\<lambda>iid.
     bindE (py_get test_result ''score'' (JStr ''N/A'')) (\<lambda>score.
       Inr (total_stats\<lparr>total_prompt_tokens := a1, total_completion_tokens := a2,
              total_tokens := a3, total_cost := a4, total_api_calls := a5\<rparr>,
            instance_costs @
              [\<lparr>ic_instance_id = iid, ic_cost = v4, ic_tokens = v3, ic_api_calls = v5,
                ic_score = score\<rparr>])))))))))))))
       else Inr (total_stats, instance_costs)))))"

fun analyze_lines ::
  "decoder \<Rightarrow> totals \<times> instance_cost list \<Rightarrow> string list \<Rightarrow> error + totals \<times> instance_cost list" where
  "analyze_lines loads st [] = Inr st"
| "analyze_lines loads st (line # lines) =
     bindE (analyze_line loads st line) (\<lambda>st'. analyze_lines loads st' lines)"

text \<open>
  What \<open>analyze_cost\<close> prints, as data: the totals, the three averages (API calls,
  tokens, cost) when the guard \<^verbatim>\<open>num_instances > 0\<close> lets them be computed, and the five
  most expensive instances. \<^verbatim>\<open>sort(key=cost, reverse=True)\<close> is stable, which is
  \<open>sort_key\<close> on the negated cost. The argument is the file's lines, or \<open>None\<close> when
  the path does not exist.
\<close>

record analysis =
  an_totals :: totals
  an_averages :: "(real \<times> real \<times> real) option"
  an_top :: "instance_cost list"

definition analyze_cost :: "decoder \<Rightarrow> string list option \<Rightarrow> error + analysis" where
  "analyze_cost loads output_file =
     (case output_file of
        None \<Rightarrow> Inl (SystemExit 1)
      | Some file_lines \<Rightarrow>
          let total_stats = \<lparr>total_prompt_tokens = JInt 0, total_completion_tokens = JInt 0,
                              total_tokens = JInt 0, total_cost = 0, total_api_calls = JInt 0,
                              num_instances = 0\<rparr>
          in bindE (analyze_lines loads (total_stats, []) file_lines) (\<lambda>st.
               case st of (total_stats, instance_costs) \<Rightarrow>
                 Inr \<lparr>an_totals = total_stats,
                      an_averages =
                        (if num_instances total_stats > 0
                         then Some (num_value (total_api_calls total_stats)
                                      / real_of_int (num_instances total_stats),
                                    num_value (total_tokens total_stats)
                                      / real_of_int (num_instances total_stats),
                                    total_cost total_stats
                                      / real_of_int (num_instances total_stats))
                         else None),
                      an_top = take 5 (sort_key (\<lambda>x. - num_value (ic_cost x)) instance_costs)\<rparr>))"

section \<open>get\_score.py\<close>

text \<open>\<^verbatim>\<open>outs.append(json.loads(line))\<close> for every line that \<^verbatim>\<open>readlines\<close> returns: no
  line is skipped.\<close>

fun read_outs :: "decoder \<Rightarrow> string list \<Rightarrow> error + json list" where
  "read_outs loads [] = Inr []"
| "read_outs loads (line # lines) =
     bindE (loads line) (\<lambda>out.
     bindE (read_outs loads lines) (\<lambda>outs. Inr (out # outs)))"

record tally =
  total :: int
  success :: int
  l1_total :: int
  l1_success :: int
  l1_cost :: real
  l2_total :: int
  l2_success :: int
  l2_cost :: real
  l3_total :: int
  l3_success :: int
  l3_cost :: real

text \<open>The three subscript chains of the loop body:
  \<^verbatim>\<open>out['test_result']['score']\<close> as a condition, \<^verbatim>\<open>out['instance']['Level']\<close> and
  \<^verbatim>\<open>out['test_result']['usage_stats']['total_cost']\<close>.\<close>

definition score_of :: "json \<Rightarrow> error + bool" where
  "score_of out =
     bindE (py_index out ''test_result'') (\<lambda>test_result.
     bindE (py_index test_result ''score'') (\<lambda>score. Inr (py_truthy score)))"

definition level_of :: "json \<Rightarrow> error + json" where
  "level_of out = bindE (py_index out ''instance'') (\<lambda>inst. py_index inst ''Level'')"

definition total_cost_of :: "json \<Rightarrow> error + json" where
  "total_cost_of out =
     bindE (py_index out ''test_result'') (\<lambda>test_result.
     bindE (py_index test_result ''usage_stats'') (\<lambda>usage_stats.
       py_index usage_stats ''total_cost''))"

text \<open>The body of \<^verbatim>\<open>for out in outs\<close>. The Level is compared with the strings "1", "2"
  and "3" in turn; a record with any other Level falls through the chain.\<close>

definition tally_step :: "tally \<Rightarrow> json \<Rightarrow> error + tally" where
  "tally_step t out =
     (let t = t\<lparr>total := total t + 1\<rparr> in
      bindE (score_of out) (\<lambda>s.
        let t = (if s then t\<lparr>success := success t + 1\<rparr> else t) in
      bindE (level_of out) (\<lambda>level.
        if level = JStr ''1'' then
          let t = t\<lparr>l1_total := l1_total t + 1\<rparr> in
          bindE (score_of out) (\<lambda>s.
            let t = (if s then t\<lparr>l1_success := l1_success t + 1\<rparr> else t) in
          bindE (total_cost_of out) (\<lambda>c.
          bindE (facc_add (l1_cost t) c) (\<lambda>x. Inr (t\<lparr>l1_cost := x\<rparr>))))
        else if level = JStr ''2'' then
          let t = t\<lparr>l2_total := l2_total t + 1\<rparr> in
          bindE (score_of out) (\<lambda>s.
            let t = (if s then t\<lparr>l2_success := l2_success t + 1\<rparr> else t) in
          bindE (total_cost_of out) (\<lambda>c.
          bindE (facc_add (l2_cost t) c) (\<lambda>x. Inr (t\<lparr>l2_cost := x\<rparr>))))
        else if level = JStr ''3'' then
          let t = t\<lparr>l3_total := l3_total t + 1\<rparr> in
          bindE (score_of out) (\<lambda>s.
            let t = (if s then t\<lparr>l3_success := l3_success t + 1\<rparr> else t) in
          bindE (total_cost_of out) (\<lambda>c.
          bindE (facc_add (l3_cost t) c) (\<lambda>x. Inr (t\<lparr>l3_cost := x\<rparr>))))
        else Inr t)))"

fun tally_loop :: "tally \<Rightarrow> json list \<Rightarrow> error + tally" where
  "tally_loop t [] = Inr t"
| "tally_loop t (out # outs) = bindE (tally_step t out) (\<lambda>t'. tally_loop t' outs)"

text \<open>\<^verbatim>\<open>success/total * 100\<close>: the division raises when the count is zero. A printed
  rate is kept with the two counts printed beside it.\<close>

definition rate :: "int \<Rightarrow> int \<Rightarrow> error + int \<times> int \<times> real" where
  "rate s n =
     (if n = 0 then Inl ZeroDivisionError
      else Inr (s, n, real_of_int s / real_of_int n * 100))"

record score_report =
  rep_metadata :: json
  rep_rate :: "int \<times> int \<times> real"
  rep_l1_rate :: "int \<times> int \<times> real"
  rep_l2_rate :: "int \<times> int \<times> real"
  rep_l3_rate :: "int \<times> int \<times> real"
  rep_l1_cost :: real
  rep_l2_cost :: real
  rep_l3_cost :: real
  rep_total_cost :: real

text \<open>\<open>main\<close> of \<^verbatim>\<open>get_score.py\<close> on the lines of the file named by \<^verbatim>\<open>--file\<close>; the
  result is what it prints when no statement raises.\<close>

definition get_score_main :: "decoder \<Rightarrow> string list \<Rightarrow> error + score_report" where
  "get_score_main loads file_lines =
     bindE (read_outs loads file_lines) (\<lambda>outs.
     bindE (case outs of [] \<Rightarrow> Inl IndexError | out # _ \<Rightarrow> py_index out ''metadata'') (\<lambda>metadata.
     bindE (tally_loop \<lparr>total = 0, success = 0,
                        l1_total = 0, l1_success = 0, l1_cost = 0,
                        l2_total = 0, l2_success = 0, l2_cost = 0,
                        l3_total = 0, l3_success = 0, l3_cost = 0\<rparr> outs) (\<lambda>t.
     bindE (rate (success t) (total t)) (\<lambda>r.
     bindE (rate (l1_success t) (l1_total t)) (\<lambda>r1.
     bindE (rate (l2_success t) (l2_total t)) (\<lambda>r2.
     bindE (rate (l3_success t) (l3_total t)) (\<lambda>r3.
       Inr \<lparr>rep_metadata = metadata, rep_rate = r, rep_l1_rate = r1, rep_l2_rate = r2,
            rep_l3_rate = r3, rep_l1_cost = l1_cost t, rep_l2_cost = l2_cost t,
            rep_l3_cost = l3_cost t,
            rep_total_cost = l1_cost t + l2_cost t + l3_cost t\<rparr>)))))))"

section \<open>What the specification says, and sample data\<close>

text \<open>The detector's three signals as the specification words them: over the messages
  whose \<^verbatim>\<open>content\<close> is a string.\<close>

definition message_text :: "json \<Rightarrow> string option" where
  "message_text msg =
     (case py_get msg ''content'' (JStr []) of Inr (JStr s) \<Rightarrow> Some s | _ \<Rightarrow> None)"

definition mentions_retry :: "json \<Rightarrow> bool" where
  "mentions_retry msg =
     (case message_text msg of
        Some s \<Rightarrow> sublist ''try to resolve the case again'' (lower s)
      | None \<Rightarrow> False)"

definition mentions_unresolved :: "json \<Rightarrow> bool" where
  "mentions_unresolved msg =
     (case message_text msg of Some s \<Rightarrow> sublist ''Case not resolved'' s | None \<Rightarrow> False)"

definition mentions_meta :: "json \<Rightarrow> bool" where
  "mentions_meta msg =
     (case message_text msg of
        Some s \<Rightarrow> sublist ''existing agent system'' (lower s) \<and> sublist ''MetaChain'' s
      | None \<Rightarrow> False)"

definition is_dict :: "json \<Rightarrow> bool" where
  "is_dict v = (case v of JObj kvs \<Rightarrow> True | _ \<Rightarrow> False)"

definition demo_messages :: "json list" where
  "demo_messages =
     [JObj [(''role'', JStr ''user''), (''content'', JStr ''Please Try to Resolve the case again.'')],
      JObj [(''role'', JStr ''tool''), (''content'', JArr [JStr ''try to resolve the case again''])],
      JObj [(''role'', JStr ''assistant''), (''content'', JStr ''Case not resolved'')],
      JObj [(''role'', JStr ''user'')]]"

definition usage_stats_of :: "json \<Rightarrow> error + json" where
  "usage_stats_of instance =
     bindE (py_get instance ''test_result'' (JObj [])) (\<lambda>test_result.
       py_get test_result ''usage_stats'' (JObj []))"



definition stats_object :: "json \<Rightarrow> json \<Rightarrow> json \<Rightarrow> json \<Rightarrow> json \<Rightarrow> json \<Rightarrow> json \<Rightarrow> int \<Rightarrow> json" where
  "stats_object prompt completion tokens cost calls original_cost original_calls k =
     JObj [(''total_prompt_tokens'', prompt),
           (''total_completion_tokens'', completion),
           (''total_tokens'', tokens),
           (''total_cost'', cost),
           (''api_calls'', calls),
           (''_original_cost'', original_cost),
           (''_original_api_calls'', original_calls),
           (''_retry_count'', JInt k),
           (''_multiplier'', JInt (k + 1))]"

definition dict_keys :: "json \<Rightarrow> string list" where
  "dict_keys v = (case v of JObj kvs \<Rightarrow> map fst kvs | _ \<Rightarrow> [])"

definition test_result_of :: "json \<Rightarrow> error + json" where
  "test_result_of instance = py_get instance ''test_result'' (JObj [])"

definition retry_messages :: "json list" where
  "retry_messages =
     [JObj [(''role'', JStr ''user''), (''content'', JStr ''Please try to resolve the case again.'')],
      JObj [(''role'', JStr ''assistant''), (''content'', JStr ''Case not resolved'')],
      JObj [(''role'', JStr ''user''), (''content'', JStr ''Please Try To Resolve The Case Again.'')]]"

definition demo_stats :: "(string \<times> json) list" where
  "demo_stats =
     [(''total_prompt_tokens'', JInt 800),
      (''total_completion_tokens'', JInt 200),
      (''total_tokens'', JInt 1000),
      (''total_cost'', JFloat (1 / 2)),
      (''api_calls'', JInt 3)]"

definition record_with :: "string \<Rightarrow> string \<Rightarrow> json list \<Rightarrow> json \<Rightarrow> json \<Rightarrow> json" where
  "record_with iid level msgs score stats =
     JObj [(''instance_id'', JStr iid),
           (''instance'', JObj [(''Level'', JStr level)]),
           (''messages'', JArr msgs),
           (''test_result'', JObj [(''score'', score), (''usage_stats'', stats)]),
           (''metadata'', JObj [])]"

definition retried_record :: json where
  "retried_record = record_with ''task-1'' ''1'' retry_messages (JBool True) (JObj demo_stats)"

definition retried_once :: json where
  "retried_once = record_with ''task-1'' ''1'' retry_messages (JBool True)
     (stats_object (JInt 2400) (JInt 600) (JInt 3000) (JFloat (3 / 2)) (JInt 9)
        (JFloat (1 / 2)) (JInt 3) 2)"

definition retried_twice :: json where
  "retried_twice = record_with ''task-1'' ''1'' retry_messages (JBool True)
     (stats_object (JInt 7200) (JInt 1800) (JInt 9000) (JFloat (9 / 2)) (JInt 27)
        (JFloat (3 / 2)) (JInt 9) 2)"

definition plain_record :: json where
  "plain_record = record_with ''task-2'' ''2''
     [JObj [(''role'', JStr ''user''), (''content'', JStr ''What is the capital of France?'')]]
     (JBool False) (JObj demo_stats)"

definition costing :: "real \<Rightarrow> json" where
  "costing c = JObj [(''total_cost'', JFloat c), (''api_calls'', JInt 1)]"

definition sample_loads :: decoder where
  "sample_loads line =
     (case map_of
        [(''record a\<newline>'', Inr (record_with ''a'' ''1'' [] (JBool True) (costing 1))),
         (''record b\<newline>'', Inr (record_with ''b'' ''2'' [] (JBool False) (costing 1))),
         (''record c\<newline>'', Inr (record_with ''c'' ''3'' [] (JBool True) (costing 1))),
         (''record d\<newline>'', Inr (record_with ''d'' ''4'' [] (JBool True) (costing 5))),
         (''record r\<newline>'', Inr retried_record),
         (''\<newline>'', Inl (JSONDecodeError 2 1))] line of
        Some r \<Rightarrow> r
      | None \<Rightarrow> Inl (JSONDecodeError 1 1))"


section \<open>Properties\<close>

subsection \<open>The detector\<close>

lemma contains_sublist: "contains p s = sublist p s"
  by (induction s) (auto simp: sublist_Cons_right)

lemma detect_step_dict:
  "is_dict msg \<Longrightarrow> detect_step (r, c, h) msg =
     Inr (if mentions_retry msg then r + 1 else r,
          if mentions_unresolved msg then c + 1 else c,
          h \<or> mentions_meta msg)"
  by (cases msg)
     (auto simp: is_dict_def detect_step_def contains_sublist message_text_def
        mentions_retry_def mentions_unresolved_def mentions_meta_def
        split: option.splits json.splits)

lemma detect_loop_counts:
  "\<forall>msg\<in>set msgs. is_dict msg \<Longrightarrow>
   detect_loop (r, c, h) msgs =
     Inr (r + int (length (filter mentions_retry msgs)),
          c + int (length (filter mentions_unresolved msgs)),
          h \<or> (\<exists>msg\<in>set msgs. mentions_meta msg))"
proof (induction msgs arbitrary: r c h)
  case Nil
  show ?case by simp
next
  case (Cons msg msgs)
  then have d: "is_dict msg" and rest: "\<forall>m\<in>set msgs. is_dict m" by simp_all
  show ?case
    by (auto simp: detect_step_dict [OF d] Cons.IH [OF rest])
qed

text \<open>
  Claim C7. On a sequence of messages that are dicts, \<open>detect_retry_pattern\<close> returns
  the number of messages whose string content, lowered, contains "try to resolve the
  case again", the number of messages whose string content contains "Case not
  resolved", and whether some single message's string content contains both
  "existing agent system" (lowered) and "MetaChain". A content that is not a string
  adds nothing to any of the three.
\<close>

theorem detect_retry_pattern_counts:
  assumes "\<forall>msg\<in>set msgs. is_dict msg"
  shows "detect_retry_pattern (JArr msgs) =
           Inr (int (length (filter mentions_retry msgs)),
                int (length (filter mentions_unresolved msgs)),
                \<exists>msg\<in>set msgs. mentions_meta msg)"
  using detect_loop_counts [OF assms, of 0 0 False]
  by (simp add: detect_retry_pattern_def)

theorem detect_retry_pattern_counts_witness:
  "list_all is_dict demo_messages \<and>
   detect_retry_pattern (JArr demo_messages) = Inr (1, 1, False) \<and>
   int (length (filter mentions_retry demo_messages)) = 1 \<and>
   int (length (filter mentions_unresolved demo_messages)) = 1 \<and>
   \<not> (\<exists>msg\<in>set demo_messages. mentions_meta msg)"
proof -
  have h: "\<forall>msg\<in>set demo_messages. is_dict msg"
    by (simp add: demo_messages_def is_dict_def)
  have v: "detect_retry_pattern (JArr demo_messages) = Inr (1, 1, False)"
    by (simp add: demo_messages_def detect_retry_pattern_def detect_step_def lower_def
        lower_char_def)
  from detect_retry_pattern_counts [OF h] v h show ?thesis
    by (simp add: list_all_iff)
qed

lemma detect_retry_pattern_eq:
  assumes "\<forall>msg\<in>set msgs. is_dict msg"
  shows "detect_retry_pattern (JArr msgs) =
           Inr (int (length (filter mentions_retry msgs)),
                int (length (filter mentions_unresolved msgs)),
                \<exists>msg\<in>set msgs. mentions_meta msg)"
  using detect_loop_counts [OF assms, of 0 0 False]
  by (simp add: detect_retry_pattern_def)

text \<open>
  Claim C4. When the transcript of a record is a list of messages none of which
  mentions the retry phrase, \<open>fix_instance_cost\<close> returns the record itself (so its
  \<^verbatim>\<open>usage_stats\<close> are unchanged and carry no audit field), reports it as not modified,
  and the reason says so: "No retries detected", or "No usage_stats found" when the
  usage statistics are empty.
\<close>

theorem fix_instance_cost_no_retry:
  assumes "py_get instance ''messages'' (JArr []) = Inr (JArr msgs)"
    and "\<forall>msg\<in>set msgs. is_dict msg"
    and "filter mentions_retry msgs = []"
    and "usage_stats_of instance = Inr usage_stats"
  shows "fix_instance_cost instance =
           Inr (instance, False,
                Text (if py_truthy usage_stats then ''No retries detected''
                      else ''No usage_stats found''))"
  using assms(1,3,4) detect_retry_pattern_eq [OF assms(2)]
  by (cases "py_get instance ''test_result'' (JObj [])")
     (auto simp: fix_instance_cost_def usage_stats_of_def)

lemma trunc_of_int [simp]: "trunc (real_of_int i) = i"
  by (simp add: trunc_def)





lemma bindE_eq_Inr: "bindE m f = Inr y \<longleftrightarrow> (\<exists>x. m = Inr x \<and> f x = Inr y)"
  by (cases m) simp_all


lemma py_int_Inr: "py_int v = Inr w \<Longrightarrow> \<exists>i. w = JInt i"
  by (cases v) auto

lemma scaled_int_Inr: "scaled_int us key m = Inr w \<Longrightarrow> \<exists>i. w = JInt i"
  by (auto simp: scaled_int_def bindE_eq_Inr dest: py_int_Inr)

lemma fixed_stats_Inr:
  assumes "fixed_stats us k (k + 1) oc = Inr fus"
  shows "\<exists>p q t cost calls ocalls.
           py_mul oc (k + 1) = Inr cost \<and>
           py_get us ''api_calls'' (JInt 0) = Inr ocalls \<and>
           py_mul ocalls (k + 1) = Inr calls \<and>
           scaled_int us ''total_prompt_tokens'' (k + 1) = Inr (JInt p) \<and>
           scaled_int us ''total_completion_tokens'' (k + 1) = Inr (JInt q) \<and>
           scaled_int us ''total_tokens'' (k + 1) = Inr (JInt t) \<and>
           fus = stats_object (JInt p) (JInt q) (JInt t) cost calls oc ocalls k"
proof -
  from assms obtain prompt completion tokens cost calls0 calls ocalls where
    a: "scaled_int us ''total_prompt_tokens'' (k + 1) = Inr prompt"
       "scaled_int us ''total_completion_tokens'' (k + 1) = Inr completion"
       "scaled_int us ''total_tokens'' (k + 1) = Inr tokens"
       "py_mul oc (k + 1) = Inr cost"
       "py_get us ''api_calls'' (JInt 0) = Inr calls0"
       "py_mul calls0 (k + 1) = Inr calls"
       "py_get us ''api_calls'' (JInt 0) = Inr ocalls"
       "fus = stats_object prompt completion tokens cost calls oc ocalls k"
    unfolding fixed_stats_def bindE_eq_Inr stats_object_def by blast
  from a(1,2,3) obtain p q t where "prompt = JInt p" "completion = JInt q" "tokens = JInt t"
    by (blast dest: scaled_int_Inr)
  with a show ?thesis by auto
qed

lemma py_format_f_Inr: "py_format_f v = Inr w \<Longrightarrow> w = v"
  by (cases v) auto

lemma py_setitem_Inr: "py_setitem v k x = Inr w \<Longrightarrow> \<exists>kvs. v = JObj kvs \<and> w = JObj (AList.update k x kvs)"
  by (cases v) auto

lemma fix_modified_inv:
  assumes "fix_instance_cost instance = Inr (fixed, True, r)"
  shows "\<exists>ikvs tkvs us msgs k c h oc fus cost.
           instance = JObj ikvs \<and>
           map_of ikvs ''test_result'' = Some (JObj tkvs) \<and>
           map_of tkvs ''usage_stats'' = Some us \<and> py_truthy us \<and>
           py_get instance ''messages'' (JArr []) = Inr msgs \<and>
           detect_retry_pattern msgs = Inr (k, c, h) \<and> k \<noteq> 0 \<and>
           py_get us ''total_cost'' (JInt 0) = Inr oc \<and>
           fixed_stats us k (k + 1) oc = Inr fus \<and>
           py_format_f oc = Inr oc \<and>
           py_mul oc (k + 1) = Inr cost \<and> py_format_f cost = Inr cost \<and>
           r = Multiplied (k + 1) k oc cost \<and>
           fixed = JObj (AList.update ''test_result''
                     (JObj (AList.update ''usage_stats'' fus tkvs)) ikvs)"
proof -
  from assms obtain msgs test_result us where
    m: "py_get instance ''messages'' (JArr []) = Inr msgs"
    and t: "py_get instance ''test_result'' (JObj []) = Inr test_result"
    and u: "py_get test_result ''usage_stats'' (JObj []) = Inr us"
    and rest: "(if \<not> py_truthy us then Inr (instance, False, Text ''No usage_stats found'')
       else bindE (detect_retry_pattern msgs) (\<lambda>sig.
       case sig of (retry_count, case_not_resolved_count, has_meta_agent) \<Rightarrow>
       if retry_count = 0
       then Inr (instance, False, Text ''No retries detected'')
       else
     bindE (py_get us ''total_cost'' (JInt 0)) (\<lambda>original_cost.
     bindE (fixed_stats us retry_count (retry_count + 1) original_cost) (\<lambda>fixed_usage_stats.
     bindE (py_setitem test_result ''usage_stats'' fixed_usage_stats) (\<lambda>fixed_test_result.
     bindE (py_setitem instance ''test_result'' fixed_test_result) (\<lambda>fixed_instance.
     bindE (py_format_f original_cost) (\<lambda>shown_before.
     bindE (py_mul original_cost (retry_count + 1)) (\<lambda>cost_after.
     bindE (py_format_f cost_after) (\<lambda>shown_after.
       Inr (fixed_instance, True,
            Multiplied (retry_count + 1) retry_count shown_before shown_after)))))))))) = Inr (fixed, True, r)"
    unfolding fix_instance_cost_def Let_def bindE_eq_Inr by blast
  from rest have tr: "py_truthy us" by (auto split: if_splits)
  with rest obtain k c h where d: "detect_retry_pattern msgs = Inr (k, c, h)"
    and rest2: "(if k = 0
       then Inr (instance, False, Text ''No retries detected'')
       else
     bindE (py_get us ''total_cost'' (JInt 0)) (\<lambda>original_cost.
     bindE (fixed_stats us k (k + 1) original_cost) (\<lambda>fixed_usage_stats.
     bindE (py_setitem test_result ''usage_stats'' fixed_usage_stats) (\<lambda>fixed_test_result.
     bindE (py_setitem instance ''test_result'' fixed_test_result) (\<lambda>fixed_instance.
     bindE (py_format_f original_cost) (\<lambda>shown_before.
     bindE (py_mul original_cost (k + 1)) (\<lambda>cost_after.
     bindE (py_format_f cost_after) (\<lambda>shown_after.
       Inr (fixed_instance, True,
            Multiplied (k + 1) k shown_before shown_after))))))))) = Inr (fixed, True, r)"
    by (auto simp: bindE_eq_Inr Let_def split: prod.splits)
  from rest2 have k: "k \<noteq> 0" by (auto split: if_splits)
  with rest2 obtain oc fus ftr fi sb cost sa where
    c: "py_get us ''total_cost'' (JInt 0) = Inr oc"
       "fixed_stats us k (k + 1) oc = Inr fus"
       "py_setitem test_result ''usage_stats'' fus = Inr ftr"
       "py_setitem instance ''test_result'' ftr = Inr fi"
       "py_format_f oc = Inr sb"
       "py_mul oc (k + 1) = Inr cost"
       "py_format_f cost = Inr sa"
       "fixed = fi" "r = Multiplied (k + 1) k sb sa"
    by (auto simp: bindE_eq_Inr)
  from c(5,7) have s: "sb = oc" "sa = cost" by (auto dest: py_format_f_Inr)
  from c(3) obtain tkvs where tk: "test_result = JObj tkvs" "ftr = JObj (AList.update ''usage_stats'' fus tkvs)"
    by (auto dest: py_setitem_Inr)
  from c(4) obtain ikvs where ik: "instance = JObj ikvs" "fi = JObj (AList.update ''test_result'' ftr ikvs)"
    by (auto dest: py_setitem_Inr)
  from t tk ik tr u have mt: "map_of ikvs ''test_result'' = Some (JObj tkvs)"
    by (auto split: option.splits)
  from u tk tr have mu: "map_of tkvs ''usage_stats'' = Some us"
    by (auto split: option.splits)
  from m d k c s tk ik mt mu tr show ?thesis by blast
qed


lemma fix_modified_intro:
  assumes "instance = JObj ikvs"
    and "map_of ikvs ''test_result'' = Some (JObj tkvs)"
    and "map_of tkvs ''usage_stats'' = Some us" and "py_truthy us"
    and "py_get instance ''messages'' (JArr []) = Inr msgs"
    and "detect_retry_pattern msgs = Inr (k, c, h)" and "k \<noteq> 0"
    and "py_get us ''total_cost'' (JInt 0) = Inr oc"
    and "fixed_stats us k (k + 1) oc = Inr fus"
    and "py_format_f oc = Inr oc"
    and "py_mul oc (k + 1) = Inr cost" and "py_format_f cost = Inr cost"
  shows "fix_instance_cost instance =
           Inr (JObj (AList.update ''test_result''
                  (JObj (AList.update ''usage_stats'' fus tkvs)) ikvs),
                True, Multiplied (k + 1) k oc cost)"
proof -
  have t: "py_get instance ''test_result'' (JObj []) = Inr (JObj tkvs)"
    by (simp add: assms(1,2))
  have u: "py_get (JObj tkvs) ''usage_stats'' (JObj []) = Inr us"
    by (simp add: assms(3))
  have s1: "py_setitem (JObj tkvs) ''usage_stats'' fus =
              Inr (JObj (AList.update ''usage_stats'' fus tkvs))"
    by simp
  have s2: "py_setitem instance ''test_result'' (JObj (AList.update ''usage_stats'' fus tkvs)) =
              Inr (JObj (AList.update ''test_result''
                     (JObj (AList.update ''usage_stats'' fus tkvs)) ikvs))"
    by (simp add: assms(1))
  show ?thesis
    unfolding fix_instance_cost_def Let_def
    by (simp only: assms(4-12) t u s1 s2 bindE.simps not_True_eq_False if_False prod.case)
qed

lemma fix_unmodified_inv:
  assumes "fix_instance_cost instance = Inr (fixed, False, r)"
  shows "fixed = instance"
  using assms unfolding fix_instance_cost_def Let_def
  by (auto simp: bindE_eq_Inr split: if_splits prod.splits)

lemma py_mul_again: "py_mul v m = Inr w \<Longrightarrow> \<exists>w'. py_mul w n = Inr w'"
  by (cases v) auto

lemma py_mul_format: "py_format_f v = Inr v \<Longrightarrow> py_mul v m = Inr w \<Longrightarrow> py_format_f w = Inr w"
  by (cases v) auto

text \<open>
  Claim C1, as the code has it. \<open>fix_instance_cost\<close> keeps no mark of a record it
  has already reconciled: applied to the record it produced, it finds the same retry
  count \<open>k\<close> in the unchanged transcript and scales the already scaled statistics by
  \<open>k + 1\<close> once more, recording the once-scaled cost and call count as the originals.
\<close>

theorem fix_instance_cost_twice:
  assumes "fix_instance_cost instance = Inr (fixed, True, r)"
  shows "\<exists>k p q t cost calls oc ocalls cost2 calls2 fixed2 r2.
           k \<noteq> 0 \<and>
           usage_stats_of fixed =
             Inr (stats_object (JInt p) (JInt q) (JInt t) cost calls oc ocalls k) \<and>
           fix_instance_cost fixed = Inr (fixed2, True, r2) \<and>
           py_mul cost (k + 1) = Inr cost2 \<and> py_mul calls (k + 1) = Inr calls2 \<and>
           usage_stats_of fixed2 =
             Inr (stats_object (JInt (p * (k + 1))) (JInt (q * (k + 1))) (JInt (t * (k + 1)))
                    cost2 calls2 cost calls k)"
proof -
  from fix_modified_inv [OF assms] obtain ikvs tkvs us msgs k c h oc fus cost where
    i: "instance = JObj ikvs" "map_of ikvs ''test_result'' = Some (JObj tkvs)"
       "map_of tkvs ''usage_stats'' = Some us"
       "py_get instance ''messages'' (JArr []) = Inr msgs"
       "detect_retry_pattern msgs = Inr (k, c, h)" "k \<noteq> 0"
       "fixed_stats us k (k + 1) oc = Inr fus" "py_format_f oc = Inr oc"
       "py_mul oc (k + 1) = Inr cost" "py_format_f cost = Inr cost"
       "fixed = JObj (AList.update ''test_result''
                  (JObj (AList.update ''usage_stats'' fus tkvs)) ikvs)"
    by blast
  from fixed_stats_Inr [OF i(7)] i(9) obtain p q t calls ocalls where
    f: "py_mul ocalls (k + 1) = Inr calls"
       "fus = stats_object (JInt p) (JInt q) (JInt t) cost calls oc ocalls k"
    by auto
  let ?tk = "AList.update ''usage_stats'' fus tkvs"
  let ?ik = "AList.update ''test_result'' (JObj ?tk) ikvs"
  from py_mul_again [OF i(9)] obtain cost2 where c2: "py_mul cost (k + 1) = Inr cost2" by blast
  from py_mul_again [OF f(1)] obtain calls2 where k2: "py_mul calls (k + 1) = Inr calls2" by blast
  let ?fus2 = "stats_object (JInt (p * (k + 1))) (JInt (q * (k + 1))) (JInt (t * (k + 1)))
                    cost2 calls2 cost calls k"
  have a1: "map_of ?ik ''test_result'' = Some (JObj ?tk)" by (simp add: update_conv')
  have a2: "map_of ?tk ''usage_stats'' = Some fus" by (simp add: update_conv')
  have a3: "py_truthy fus" by (simp add: f(2) stats_object_def)
  have a4: "py_get fixed ''messages'' (JArr []) = Inr msgs"
    using i(4) by (simp add: i(1,11) update_conv')
  have a5: "py_get fus ''total_cost'' (JInt 0) = Inr cost"
    by (simp add: f(2) stats_object_def)
  have a6: "fixed_stats fus k (k + 1) cost = Inr ?fus2"
    by (simp add: fixed_stats_def scaled_int_def f(2) stats_object_def c2 k2)
  have a7: "py_format_f cost2 = Inr cost2" by (rule py_mul_format [OF i(10) c2])
  have second: "fix_instance_cost fixed =
      Inr (JObj (AList.update ''test_result'' (JObj (AList.update ''usage_stats'' ?fus2 ?tk)) ?ik),
           True, Multiplied (k + 1) k cost cost2)"
    by (rule fix_modified_intro [OF i(11) a1 a2 a3 a4 i(5,6) a5 a6 i(10) c2 a7])
  have u1: "usage_stats_of fixed = Inr fus"
    by (simp add: usage_stats_of_def i(11) update_conv')
  have u2: "usage_stats_of (JObj (AList.update ''test_result''
               (JObj (AList.update ''usage_stats'' ?fus2 ?tk)) ?ik)) = Inr ?fus2"
    by (simp add: usage_stats_of_def update_conv')
  from i(6) u1 f(2) second c2 k2 u2 show ?thesis by blast
qed

text \<open>
  Claim C10. The record that \<open>fix_instance_cost\<close> returns has the keys of the input
  in the same order, agrees with it on every key other than \<^verbatim>\<open>test_result\<close> (so on
  \<^verbatim>\<open>instance_id\<close>, the Level and the whole \<^verbatim>\<open>messages\<close> transcript), and its \<^verbatim>\<open>test_result\<close>
  has the keys of the input's and agrees with it on every key other than
  \<^verbatim>\<open>usage_stats\<close> (so on \<^verbatim>\<open>score\<close>), whether or not the record was modified.
\<close>

theorem fix_instance_cost_frame:
  assumes "fix_instance_cost instance = Inr (fixed, m, r)"
  shows "(\<forall>key d. key \<noteq> ''test_result'' \<longrightarrow> py_get fixed key d = py_get instance key d) \<and>
         (\<forall>key d. key \<noteq> ''usage_stats'' \<longrightarrow>
            bindE (test_result_of fixed) (\<lambda>t. py_get t key d) =
            bindE (test_result_of instance) (\<lambda>t. py_get t key d)) \<and>
         dict_keys fixed = dict_keys instance \<and>
         bindE (test_result_of fixed) (\<lambda>t. Inr (dict_keys t)) =
         bindE (test_result_of instance) (\<lambda>t. Inr (dict_keys t))"
proof (cases m)
  case False
  with assms have "fixed = instance" by (auto dest: fix_unmodified_inv)
  then show ?thesis by simp
next
  case True
  with assms have "fix_instance_cost instance = Inr (fixed, True, r)" by simp
  from fix_modified_inv [OF this] obtain ikvs tkvs us fus where
    i: "instance = JObj ikvs" "map_of ikvs ''test_result'' = Some (JObj tkvs)"
       "map_of tkvs ''usage_stats'' = Some us"
       "fixed = JObj (AList.update ''test_result''
                  (JObj (AList.update ''usage_stats'' fus tkvs)) ikvs)"
    by blast
  from i(2) have k1: "''test_result'' \<in> fst ` set ikvs"
    by (force dest: map_of_SomeD)
  from i(3) have k2: "''usage_stats'' \<in> fst ` set tkvs"
    by (force dest: map_of_SomeD)
  show ?thesis
    using k1 k2
    by (simp add: i dict_keys_def test_result_of_def update_conv' update_keys map_idI)
qed

lemmas demo_defs = retry_messages_def demo_stats_def record_with_def retried_record_def
  retried_once_def retried_twice_def plain_record_def stats_object_def

lemmas eval_defs = fix_instance_cost_def detect_retry_pattern_def detect_step_def lower_def
  lower_char_def fixed_stats_def scaled_int_def usage_stats_of_def

lemma first_application:
  "fix_instance_cost retried_record =
     Inr (retried_once, True, Multiplied 3 2 (JFloat (1 / 2)) (JFloat (3 / 2)))"
  by (simp add: demo_defs eval_defs)

lemma second_application:
  "fix_instance_cost retried_once =
     Inr (retried_twice, True, Multiplied 3 2 (JFloat (3 / 2)) (JFloat (9 / 2)))"
  by (simp add: demo_defs eval_defs)

text \<open>
  Claim C1 as stated fails: with two retry messages, the first application turns
  \<^verbatim>\<open>api_calls\<close> 3 into 9 and the cost 0.5 into 1.5, and the second application, on the
  same transcript, turns them into 27 and 4.5.
\<close>

theorem fix_instance_cost_not_idempotent:
  "fix_instance_cost retried_record =
     Inr (retried_once, True, Multiplied 3 2 (JFloat (1 / 2)) (JFloat (3 / 2))) \<and>
   fix_instance_cost retried_once =
     Inr (retried_twice, True, Multiplied 3 2 (JFloat (3 / 2)) (JFloat (9 / 2))) \<and>
   py_get retried_once ''messages'' JNull = py_get retried_record ''messages'' JNull \<and>
   usage_stats_of retried_once =
     Inr (stats_object (JInt 2400) (JInt 600) (JInt 3000) (JFloat (3 / 2)) (JInt 9)
            (JFloat (1 / 2)) (JInt 3) 2) \<and>
   usage_stats_of retried_twice =
     Inr (stats_object (JInt 7200) (JInt 1800) (JInt 9000) (JFloat (9 / 2)) (JInt 27)
            (JFloat (3 / 2)) (JInt 9) 2) \<and>
   usage_stats_of retried_twice \<noteq> usage_stats_of retried_once"
  by (simp add: demo_defs eval_defs)




theorem fix_instance_cost_twice_witness:
  "fix_instance_cost retried_record =
     Inr (retried_once, True, Multiplied 3 2 (JFloat (1 / 2)) (JFloat (3 / 2))) \<and>
   (\<exists>fixed2 r2.
      fix_instance_cost retried_once = Inr (fixed2, True, r2) \<and>
      usage_stats_of fixed2 =
        Inr (stats_object (JInt (2400 * 3)) (JInt (600 * 3)) (JInt (3000 * 3))
               (JFloat (3 / 2 * 3)) (JInt (9 * 3)) (JFloat (3 / 2)) (JInt 9) 2))"
proof -
  from fix_instance_cost_twice [OF first_application]
  obtain k p q t cost calls oc ocalls cost2 calls2 fixed2 r2 where
    f: "usage_stats_of retried_once =
          Inr (stats_object (JInt p) (JInt q) (JInt t) cost calls oc ocalls k)"
       "fix_instance_cost retried_once = Inr (fixed2, True, r2)"
       "py_mul cost (k + 1) = Inr cost2" "py_mul calls (k + 1) = Inr calls2"
       "usage_stats_of fixed2 =
          Inr (stats_object (JInt (p * (k + 1))) (JInt (q * (k + 1))) (JInt (t * (k + 1)))
                 cost2 calls2 cost calls k)"
    by blast
  from f(1) have v: "p = 2400" "q = 600" "t = 3000" "cost = JFloat (3 / 2)" "calls = JInt 9" "k = 2"
    by (simp_all add: retried_once_def record_with_def usage_stats_of_def stats_object_def)
  from f(3,4) v have "cost2 = JFloat (3 / 2 * 3)" "calls2 = JInt (9 * 3)" by auto
  with f(2,5) v first_application show ?thesis by auto
qed

theorem fix_instance_cost_frame_witness:
  "fix_instance_cost retried_record =
     Inr (retried_once, True, Multiplied 3 2 (JFloat (1 / 2)) (JFloat (3 / 2))) \<and>
   py_get retried_once ''instance_id'' JNull = Inr (JStr ''task-1'') \<and>
   py_get retried_record ''instance_id'' JNull = Inr (JStr ''task-1'') \<and>
   py_get retried_once ''messages'' JNull = py_get retried_record ''messages'' JNull \<and>
   py_get retried_once ''instance'' JNull = py_get retried_record ''instance'' JNull \<and>
   bindE (test_result_of retried_once) (\<lambda>t. py_get t ''score'' JNull) = Inr (JBool True) \<and>
   bindE (test_result_of retried_record) (\<lambda>t. py_get t ''score'' JNull) = Inr (JBool True) \<and>
   dict_keys retried_once = dict_keys retried_record"
proof -
  note f = fix_instance_cost_frame [OF first_application]
  from f have "py_get retried_once ''instance_id'' JNull = py_get retried_record ''instance_id'' JNull"
    "py_get retried_once ''messages'' JNull = py_get retried_record ''messages'' JNull"
    "py_get retried_once ''instance'' JNull = py_get retried_record ''instance'' JNull"
    "bindE (test_result_of retried_once) (\<lambda>t. py_get t ''score'' JNull) =
     bindE (test_result_of retried_record) (\<lambda>t. py_get t ''score'' JNull)"
    "dict_keys retried_once = dict_keys retried_record"
    by simp_all
  moreover have "py_get retried_record ''instance_id'' JNull = Inr (JStr ''task-1'')"
    "bindE (test_result_of retried_record) (\<lambda>t. py_get t ''score'' JNull) = Inr (JBool True)"
    by (simp_all add: retried_record_def record_with_def test_result_of_def)
  ultimately show ?thesis using first_application by simp
qed

theorem fix_instance_cost_no_retry_witness:
  "py_get plain_record ''messages'' (JArr []) =
     Inr (JArr [JObj [(''role'', JStr ''user''),
                      (''content'', JStr ''What is the capital of France?'')]]) \<and>
   usage_stats_of plain_record = Inr (JObj demo_stats) \<and>
   fix_instance_cost plain_record = Inr (plain_record, False, Text ''No retries detected'')"
proof -
  let ?msgs = "[JObj [(''role'', JStr ''user''),
                      (''content'', JStr ''What is the capital of France?'')]]"
  have m: "py_get plain_record ''messages'' (JArr []) = Inr (JArr ?msgs)"
    by (simp add: plain_record_def record_with_def)
  have d: "\<forall>msg\<in>set ?msgs. is_dict msg" by (simp add: is_dict_def)
  have n: "filter mentions_retry ?msgs = []"
    by (simp add: mentions_retry_def message_text_def lower_def lower_char_def
        flip: contains_sublist)
  have u: "usage_stats_of plain_record = Inr (JObj demo_stats)"
    by (simp add: plain_record_def record_with_def usage_stats_of_def)
  from fix_instance_cost_no_retry [OF m d n u] m u show ?thesis
    by (simp add: demo_stats_def)
qed











lemmas sample_defs = sample_loads_def record_with_def costing_def

lemmas score_defs = get_score_main_def tally_step_def score_of_def level_of_def
  total_cost_of_def rate_def

lemmas fix_file_defs = fix_main_def fix_output_file_def fix_line_def cost_of_def blank_def
  is_space_def fix_instance_cost_def detect_retry_pattern_def

lemmas analyze_defs = analyze_cost_def analyze_line_def blank_def is_space_def

lemma bindE_assoc: "bindE (bindE m f) g = bindE m (\<lambda>x. bindE (f x) g)"
  by (cases m) simp_all

lemma bindE_eq_Inl: "bindE m f = Inl e \<longleftrightarrow> m = Inl e \<or> (\<exists>x. m = Inr x \<and> f x = Inl e)"
  by (cases m) simp_all

lemma fix_line_blank: "blank line \<Longrightarrow> fix_line loads st line = Inr st"
  by (cases st) (simp add: fix_line_def)

lemma fix_line_undecodable:
  "\<not> blank line \<Longrightarrow> loads line = Inl e \<Longrightarrow> fix_line loads st line = Inl e"
  by (cases st) (simp add: fix_line_def)

lemma fix_lines_append:
  "fix_lines loads st (xs @ ys) = bindE (fix_lines loads st xs) (\<lambda>st'. fix_lines loads st' ys)"
proof (induction xs arbitrary: st)
  case Nil
  show ?case by simp
next
  case (Cons x xs)
  show ?case by (cases "fix_line loads st x") (simp_all add: Cons.IH)
qed

lemma analyze_line_blank: "blank line \<Longrightarrow> analyze_line loads st line = Inr st"
  by (cases st) (simp add: analyze_line_def)

lemma analyze_line_undecodable:
  "\<not> blank line \<Longrightarrow> loads line = Inl e \<Longrightarrow> analyze_line loads st line = Inl e"
  by (cases st) (simp add: analyze_line_def)

lemma analyze_lines_append:
  "analyze_lines loads st (xs @ ys) =
     bindE (analyze_lines loads st xs) (\<lambda>st'. analyze_lines loads st' ys)"
proof (induction xs arbitrary: st)
  case Nil
  show ?case by simp
next
  case (Cons x xs)
  show ?case by (cases "analyze_line loads st x") (simp_all add: Cons.IH)
qed

lemma fix_lines_skip_blank:
  "blank line \<Longrightarrow> fix_lines loads st (pre @ line # post) = fix_lines loads st (pre @ post)"
  by (simp add: fix_lines_append fix_line_blank)

lemma analyze_lines_skip_blank:
  "blank line \<Longrightarrow> analyze_lines loads st (pre @ line # post) = analyze_lines loads st (pre @ post)"
  by (simp add: analyze_lines_append analyze_line_blank)

lemma read_outs_undecodable:
  assumes "read_outs loads pre = Inr outs" and "loads line = Inl e"
  shows "read_outs loads (pre @ line # post) = Inl e"
  using assms(1)
proof (induction pre arbitrary: outs)
  case Nil
  show ?case by (simp add: assms(2))
next
  case (Cons x xs)
  then show ?case by (auto simp: bindE_eq_Inr)
qed

lemma fix_lines_undecodable:
  assumes "\<not> blank bad" and "loads bad = Inl e"
  shows "fix_lines loads st (pre @ bad # post) =
           (case fix_lines loads st pre of Inl e' \<Rightarrow> Inl e' | Inr st' \<Rightarrow> Inl e)"
  using assms
  by (cases "fix_lines loads st pre")
     (simp_all add: fix_lines_append fix_line_undecodable)

lemma analyze_lines_undecodable:
  assumes "\<not> blank bad" and "loads bad = Inl e"
  shows "analyze_lines loads st (pre @ bad # post) =
           (case analyze_lines loads st pre of Inl e' \<Rightarrow> Inl e' | Inr st' \<Rightarrow> Inl e)"
  using assms
  by (cases "analyze_lines loads st pre")
     (simp_all add: analyze_lines_append analyze_line_undecodable)

text \<open>
  Claim C6, as the code has it. A file with a non-blank line that \<open>loads\<close> rejects
  makes \<open>fix_output_file\<close> and \<open>analyze_cost\<close> fail, so nothing is written and no
  summary is returned; when the lines before it are processed without failure, the
  failure is the decoder's exception for that line, unchanged. Neither function
  counts lines: the exception carries what the decoder knows, the position inside the
  line.
\<close>

theorem undecodable_line_fails:
  assumes "\<not> blank bad" and "loads bad = Inl e"
  shows "(\<exists>e'. fix_output_file loads (pre @ bad # post) input_path output_path = Inl e') \<and>
         (\<exists>e'. analyze_cost loads (Some (pre @ bad # post)) = Inl e') \<and>
         ((\<exists>res. fix_output_file loads pre input_path output_path = Inr res) \<longrightarrow>
            fix_output_file loads (pre @ bad # post) input_path output_path = Inl e) \<and>
         ((\<exists>res. analyze_cost loads (Some pre) = Inr res) \<longrightarrow>
            analyze_cost loads (Some (pre @ bad # post)) = Inl e)"
proof -
  note f = fix_lines_undecodable [where loads = loads and bad = bad, OF assms]
  note a = analyze_lines_undecodable [where loads = loads and bad = bad, OF assms]
  show ?thesis
  proof (intro conjI impI)
    show "\<exists>e'. fix_output_file loads (pre @ bad # post) input_path output_path = Inl e'"
      by (simp add: fix_output_file_def Let_def f split: sum.splits)
    show "\<exists>e'. analyze_cost loads (Some (pre @ bad # post)) = Inl e'"
      by (simp add: analyze_cost_def Let_def a split: sum.splits)
  next
    assume "\<exists>res. fix_output_file loads pre input_path output_path = Inr res"
    then show "fix_output_file loads (pre @ bad # post) input_path output_path = Inl e"
      by (auto simp: fix_output_file_def Let_def f bindE_eq_Inr)
  next
    assume "\<exists>res. analyze_cost loads (Some pre) = Inr res"
    then show "analyze_cost loads (Some (pre @ bad # post)) = Inl e"
      by (auto simp: analyze_cost_def Let_def a bindE_eq_Inr)
  qed
qed

text \<open>
  Claim C5, as the code has it. A record that has a score and a Level other than "1",
  "2" and "3" does not make the loop of \<^verbatim>\<open>get_score.py\<close> fail: it adds one to the
  global instance count and, when its score is truthy, one to the global success
  count, and changes no tier count and no cost. The total cost reported is the sum of
  the three tier costs.
\<close>

theorem tally_unknown_level:
  assumes "level_of out = Inr level"
    and "level \<noteq> JStr ''1''" and "level \<noteq> JStr ''2''" and "level \<noteq> JStr ''3''"
    and "score_of out = Inr s"
  shows "tally_step t out =
           Inr (t\<lparr>total := total t + 1,
                  success := (if s then success t + 1 else success t)\<rparr>) \<and>
         (get_score_main loads file_lines = Inr rep \<longrightarrow>
            rep_total_cost rep = rep_l1_cost rep + rep_l2_cost rep + rep_l3_cost rep)"
proof
  show "tally_step t out =
           Inr (t\<lparr>total := total t + 1,
                  success := (if s then success t + 1 else success t)\<rparr>)"
    using assms by (simp add: tally_step_def Let_def)
  show "get_score_main loads file_lines = Inr rep \<longrightarrow>
            rep_total_cost rep = rep_l1_cost rep + rep_l2_cost rep + rep_l3_cost rep"
    by (auto simp: get_score_main_def bindE_eq_Inr)
qed

text \<open>
  Claim C2 at a failing input. \<^verbatim>\<open>get_score.py\<close> divides by the count of each tier without
  a guard: a file whose only record has Level "2" raises \<^verbatim>\<open>ZeroDivisionError\<close> (and an
  empty file raises \<^verbatim>\<open>IndexError\<close> at \<^verbatim>\<open>outs[0]\<close> before any rate). \<^verbatim>\<open>analyze_cost\<close> on
  the same files has the guard: it prints the averages, or omits them for the empty
  file.
\<close>

theorem get_score_zero_tier:
  "get_score_main sample_loads [''record b\<newline>''] = Inl ZeroDivisionError \<and>
   get_score_main sample_loads [] = Inl IndexError \<and>
   bindE (analyze_cost sample_loads (Some [''record b\<newline>''])) (\<lambda>a. Inr (an_averages a))
     = Inr (Some (1, 0, 1)) \<and>
   bindE (analyze_cost sample_loads (Some [])) (\<lambda>a. Inr (an_averages a)) = Inr None"
  by (simp add: sample_defs score_defs analyze_defs)

text \<open>
  Claim C8 at a failing input. \<^verbatim>\<open>get_score.py\<close> hands every line to the decoder: a file
  with a blank second line fails with the decoder's exception, where the same file
  without that line gives the rates. \<open>fix_output_file\<close> and \<open>analyze_cost\<close> skip the
  blank line and count three instances.
\<close>

theorem get_score_blank_line:
  "blank ''\<newline>'' \<and>
   get_score_main sample_loads
     [''record a\<newline>'', ''\<newline>'', ''record b\<newline>'', ''record c\<newline>'']
     = Inl (JSONDecodeError 2 1) \<and>
   bindE (get_score_main sample_loads
            [''record a\<newline>'', ''record b\<newline>'', ''record c\<newline>''])
     (\<lambda>r. Inr (rep_rate r)) = Inr (2, 3, 200 / 3) \<and>
   bindE (fix_output_file sample_loads
            [''record a\<newline>'', ''\<newline>'', ''record b\<newline>'', ''record c\<newline>'']
            ''out.jsonl'' None)
     (\<lambda>r. Inr (total_instances (returned r), length (written_lines r))) = Inr (3, 3) \<and>
   bindE (analyze_cost sample_loads
            (Some [''record a\<newline>'', ''\<newline>'', ''record b\<newline>'', ''record c\<newline>'']))
     (\<lambda>a. Inr (num_instances (an_totals a))) = Inr 3"
  by (simp add: sample_defs score_defs analyze_defs fix_file_defs)

text \<open>
  Claim C5 as stated fails: in a file with one record of each Level "1", "2", "3"
  (cost 1 each) and one record of Level "4" (cost 5), the fourth record is counted
  (3 successes of 4) but the total cost reported is 3, not 8.
\<close>

theorem unknown_level_cost_dropped:
  "bindE (get_score_main sample_loads
            [''record a\<newline>'', ''record b\<newline>'', ''record c\<newline>'', ''record d\<newline>''])
     (\<lambda>r. Inr (rep_rate r, rep_l1_cost r, rep_l2_cost r, rep_l3_cost r, rep_total_cost r))
     = Inr ((3, 4, 75), 1, 1, 1, 3) \<and>
   bindE (sample_loads ''record d\<newline>'') level_of = Inr (JStr ''4'') \<and>
   bindE (sample_loads ''record d\<newline>'') total_cost_of = Inr (JFloat 5) \<and>
   (3 :: real) \<noteq> 1 + 1 + 1 + 5"
  by (simp add: sample_defs score_defs)

theorem tally_unknown_level_witness:
  "level_of (record_with ''d'' ''4'' [] (JBool True) (costing 5)) = Inr (JStr ''4'') \<and>
   score_of (record_with ''d'' ''4'' [] (JBool True) (costing 5)) = Inr True \<and>
   tally_step \<lparr>total = 3, success = 2, l1_total = 1, l1_success = 1, l1_cost = 1,
                l2_total = 1, l2_success = 0, l2_cost = 1,
                l3_total = 1, l3_success = 1, l3_cost = 1\<rparr>
       (record_with ''d'' ''4'' [] (JBool True) (costing 5))
     = Inr \<lparr>total = 4, success = 3, l1_total = 1, l1_success = 1, l1_cost = 1,
             l2_total = 1, l2_success = 0, l2_cost = 1,
             l3_total = 1, l3_success = 1, l3_cost = 1\<rparr> \<and>
   (\<exists>rep. get_score_main sample_loads
            [''record a\<newline>'', ''record b\<newline>'', ''record c\<newline>'', ''record d\<newline>'']
            = Inr rep \<and>
          rep_total_cost rep = rep_l1_cost rep + rep_l2_cost rep + rep_l3_cost rep)"
proof -
  let ?d = "record_with ''d'' ''4'' [] (JBool True) (costing 5)"
  let ?file = "[''record a\<newline>'', ''record b\<newline>'', ''record c\<newline>'', ''record d\<newline>'']"
  have l: "level_of ?d = Inr (JStr ''4'')" and s: "score_of ?d = Inr True"
    by (simp_all add: sample_defs score_defs)
  obtain rep where r: "get_score_main sample_loads ?file = Inr rep"
    by (simp add: sample_defs score_defs)
  from tally_unknown_level [OF l _ _ _ s, of _ sample_loads ?file rep] r l s
  show ?thesis by simp
qed

text \<open>
  Claim C6 as stated fails: the same undecodable line gives the same failure as the
  second line of a file and as the first, so the failure does not identify the line
  number.
\<close>

theorem line_number_not_reported:
  "fix_output_file sample_loads [''record a\<newline>'', ''not json\<newline>''] ''out.jsonl'' None
     = Inl (JSONDecodeError 1 1) \<and>
   fix_output_file sample_loads [''not json\<newline>'', ''record a\<newline>''] ''out.jsonl'' None
     = Inl (JSONDecodeError 1 1) \<and>
   analyze_cost sample_loads (Some [''record a\<newline>'', ''not json\<newline>''])
     = Inl (JSONDecodeError 1 1) \<and>
   analyze_cost sample_loads (Some [''not json\<newline>'', ''record a\<newline>''])
     = Inl (JSONDecodeError 1 1)"
  by (simp add: sample_defs analyze_defs fix_file_defs)

theorem undecodable_line_fails_witness:
  "\<not> blank ''not json\<newline>'' \<and>
   sample_loads ''not json\<newline>'' = Inl (JSONDecodeError 1 1) \<and>
   (\<exists>res. fix_output_file sample_loads [''record a\<newline>''] ''out.jsonl'' None = Inr res) \<and>
   (\<exists>res. analyze_cost sample_loads (Some [''record a\<newline>'']) = Inr res) \<and>
   fix_output_file sample_loads ([''record a\<newline>''] @ ''not json\<newline>'' # [''record b\<newline>''])
     ''out.jsonl'' None = Inl (JSONDecodeError 1 1) \<and>
   analyze_cost sample_loads (Some ([''record a\<newline>''] @ ''not json\<newline>'' # [''record b\<newline>'']))
     = Inl (JSONDecodeError 1 1)"
proof -
  have b: "\<not> blank ''not json\<newline>''" by (simp add: blank_def is_space_def)
  have e: "sample_loads ''not json\<newline>'' = Inl (JSONDecodeError 1 1)"
    by (simp add: sample_loads_def)
  have f: "\<exists>res. fix_output_file sample_loads [''record a\<newline>''] ''out.jsonl'' None = Inr res"
    by (simp add: sample_defs fix_file_defs)
  have a: "\<exists>res. analyze_cost sample_loads (Some [''record a\<newline>'']) = Inr res"
    by (simp add: sample_defs analyze_defs)
  from undecodable_line_fails [where loads = sample_loads and bad = "''not json\<newline>''",
      OF b e, of "[''record a\<newline>'']" "[''record b\<newline>'']" "''out.jsonl''" None]
    b e f a
  show ?thesis by blast
qed



end
